theory Spec2Isabelle
  imports Complex_Main
begin

section \<open>The chunk pipeline of \<open>any2en_.py\<close>\<close>

text \<open>
  The class \<open>AudioTranslator\<close> of \<open>src/any2en_.py\<close> decides, for each recorded audio chunk,
  which language it is in, transcribes it and translates it to English. This theory embeds
  \<open>is_valid_audio_file\<close>, \<open>detect_language\<close> and \<open>transcribe_and_translate\<close> together with the
  state they read and write, and proves properties of them.

  Conventions of the embedding:
  \<^item> a Python \<open>str\<close> that holds recognised speech is a \<open>py_text\<close>, the list of its
    code points, so that text in any script can be written and \<open>strip\<close> removes the
    white space of Unicode; a \<open>str\<close> that holds a language code or a path is a \<open>string\<close>.
    \<open>not s\<close> on either is \<open>s = []\<close>;
  \<^item> the confidence reported by the model is a \<open>real\<close>. The only operation on it is the
    comparison with the literal \<open>0.3\<close>; no IEEE double lies strictly between the double
    nearest to 0.3 and the real 3/10, so the comparison agrees with the one on doubles
    for every finite value (a NaN, which compares false, is not represented);
  \<^item> a \<open>dict\<close> is an association list in insertion order with distinct keys;
  \<^item> an exception that \<open>except Exception\<close> catches is a value of \<open>py_exception\<close>, and a
    function that may raise returns \<open>py_exception + 'a\<close>;
  \<^item> the speech model and the file system are outside the repository: they are
    parameters, a file-status function and a state-passing model function over an
    arbitrary world \<open>'w\<close>.
\<close>

subsection \<open>Python built-ins used by the pipeline\<close>

datatype py_exception = ValueError | OtherException string

type_synonym py_text = "nat list"

text \<open>
  The characters that \<open>str.strip\<close> removes, by code point: the ASCII controls U+0009 to
  U+000D and U+001C to U+001F, the space, U+0085, U+00A0, U+1680, U+2000 to U+200A,
  U+2028, U+2029, U+202F, U+205F and U+3000.
\<close>

definition py_isspace :: "nat \<Rightarrow> bool" where
  "py_isspace c =
     ((9 \<le> c \<and> c \<le> 13) \<or> (28 \<le> c \<and> c \<le> 32) \<or> c = 133 \<or> c = 160 \<or> c = 5760 \<or>
      (8192 \<le> c \<and> c \<le> 8202) \<or> c = 8232 \<or> c = 8233 \<or> c = 8239 \<or> c = 8287 \<or>
      c = 12288)"

text \<open>\<open>s.strip()\<close>: drop the whitespace at both ends.\<close>

definition py_strip :: "py_text \<Rightarrow> py_text" where
  "py_strip s = rev (dropWhile py_isspace (rev (dropWhile py_isspace s)))"

text \<open>\<open>d.get(k, default)\<close>.\<close>

definition dict_get :: "('k \<times> 'v) list \<Rightarrow> 'k \<Rightarrow> 'v \<Rightarrow> 'v" where
  "dict_get d k dflt = (case map_of d k of None \<Rightarrow> dflt | Some v \<Rightarrow> v)"

text \<open>
  \<open>d[k] = v\<close>: an existing key keeps its position and gets the new value, a new key is
  appended at the end.
\<close>

fun dict_set :: "('k \<times> 'v) list \<Rightarrow> 'k \<Rightarrow> 'v \<Rightarrow> ('k \<times> 'v) list" where
  "dict_set [] k v = [(k, v)]"
| "dict_set ((k', v') # d) k v =
     (if k' = k then (k, v) # d else (k', v') # dict_set d k v)"

text \<open>
  \<open>max(d, key=d.get)\<close>: the keys are visited in insertion order, the running maximum is
  replaced only by a key whose value is strictly greater, and an empty dictionary raises
  \<open>ValueError\<close>. For a key of \<open>d\<close>, \<open>d.get\<close> is the value stored with it.
\<close>

fun py_max_key :: "('k \<times> int) list \<Rightarrow> py_exception + 'k" where
  "py_max_key [] = Inl ValueError"
| "py_max_key (first # d) =
     Inr (fst (fold (\<lambda>item best. if snd best < snd item then item else best) d first))"

subsection \<open>The external collaborators\<close>

text \<open>
  What \<open>os.path.exists\<close> and \<open>os.path.getsize\<close> find at a path: nothing, a file whose size
  cannot be read (\<open>getsize\<close> raises \<open>OSError\<close>), or a file of a size in bytes.
\<close>

datatype file_status = Absent | Unreadable | Size nat

datatype task = Transcribe | Translate

text \<open>
  The arguments of one call of \<open>self.model.transcribe\<close>; an argument not passed is \<open>None\<close>.
  \<open>vad_parameters\<close> holds the value of \<open>min_silence_duration_ms\<close>.
\<close>

record request =
  audio :: string
  language :: "string option"
  task :: task
  vad_filter :: bool
  vad_parameters :: "nat option"
  beam_size :: nat
  condition_on_previous_text :: bool
  no_speech_threshold :: real
  temperature :: "real option"

text \<open>
  The \<open>info\<close> object returned by the model. The pipeline reads it with
  \<open>getattr(info, name, default)\<close>, so an attribute may be absent.
\<close>

record transcription_info =
  info_language :: "string option"
  info_language_probability :: "real option"

text \<open>
  The model returns \<open>(segments, info)\<close>. The segments are produced lazily: iterating them
  yields the text of each segment in order, or raises.
\<close>

type_synonym response = "(py_exception + py_text list) \<times> transcription_info"

type_synonym 'w whisper_model = "'w \<Rightarrow> request \<Rightarrow> (py_exception + response) \<times> 'w"

type_synonym 'w file_system = "'w \<Rightarrow> string \<Rightarrow> file_status"

subsection \<open>The state of an \<open>AudioTranslator\<close>\<close>

text \<open>
  The fields of \<open>self\<close>. \<open>no_vad\<close> is \<open>self.args.no_vad\<close>, \<open>model\<close> is the state of the world the
  speech model runs in. \<open>calls\<close> is not a field of the source: it records every call of
  \<open>self.model.transcribe\<close> in order, so that the number and kind of calls can be stated.
\<close>

record 'w audio_translator =
  no_vad :: bool
  model :: 'w
  detected_lang_cache :: "(string \<times> int) list"
  chunk_count :: int
  last_detected_lang :: string
  calls :: "request list"

text \<open>\<open>__init__\<close>, with the model already loaded.\<close>

definition init :: "bool \<Rightarrow> 'w \<Rightarrow> 'w audio_translator" where
  "init nv w =
     \<lparr>no_vad = nv, model = w, detected_lang_cache = [], chunk_count = 0,
      last_detected_lang = ''en'', calls = []\<rparr>"

text \<open>One call of \<open>self.model.transcribe\<close>: the world moves on and the call is recorded.\<close>

definition model_transcribe ::
  "'w whisper_model \<Rightarrow> request \<Rightarrow> 'w audio_translator \<Rightarrow>
     (py_exception + response) \<times> 'w audio_translator" where
  "model_transcribe wm req self =
     (case wm (model self) req of
        (r, w') \<Rightarrow> (r, self\<lparr>model := w', calls := calls self @ [req]\<rparr>))"

subsection \<open>\<open>is_valid_audio_file\<close>\<close>

text \<open>
  \<open>os.path.exists(p) and os.path.getsize(p) > 1024\<close>, with \<open>OSError\<close> caught and
  answered by \<open>False\<close>.
\<close>

definition is_valid_audio_file ::
  "'w file_system \<Rightarrow> 'w audio_translator \<Rightarrow> string \<Rightarrow> bool" where
  "is_valid_audio_file fs self audio_path =
     (case fs (model self) audio_path of
        Absent \<Rightarrow> False
      | Unreadable \<Rightarrow> False
      | Size n \<Rightarrow> n > 1024)"

subsection \<open>\<open>detect_language\<close>\<close>

definition detection_request :: "bool \<Rightarrow> string \<Rightarrow> request" where
  "detection_request nv audio_path =
     \<lparr>audio = audio_path, language = None, task = Transcribe, vad_filter = (\<not> nv),
      vad_parameters = None, beam_size = 1, condition_on_previous_text = False,
      no_speech_threshold = 0.6, temperature = None\<rparr>"

text \<open>The body of the \<open>try\<close> of \<open>detect_language\<close>.\<close>

definition detect_language_try ::
  "'w whisper_model \<Rightarrow> string \<Rightarrow> 'w audio_translator \<Rightarrow>
     (py_exception + string \<times> real) \<times> 'w audio_translator" where
  "detect_language_try wm audio_path self =
     (case model_transcribe wm (detection_request (no_vad self) audio_path) self of
        (Inl e, self1) \<Rightarrow> (Inl e, self1)
      | (Inr (segments, info), self1) \<Rightarrow>
          (let detected_lang =
                 (case info_language info of
                    None \<Rightarrow> last_detected_lang self1 | Some l \<Rightarrow> l);
               confidence =
                 (case info_language_probability info of None \<Rightarrow> 0.0 | Some c \<Rightarrow> c);
               self2 =
                 (if confidence > 0.3 then self1\<lparr>last_detected_lang := detected_lang\<rparr>
                  else self1)
           in (Inr (detected_lang, confidence), self2)))"

definition detect_language ::
  "'w file_system \<Rightarrow> 'w whisper_model \<Rightarrow> string \<Rightarrow> 'w audio_translator \<Rightarrow>
     (string \<times> real) \<times> 'w audio_translator" where
  "detect_language fs wm audio_path self =
     (if \<not> is_valid_audio_file fs self audio_path then ((last_detected_lang self, 0.0), self)
      else
        (case detect_language_try wm audio_path self of
           (Inr r, self1) \<Rightarrow> (r, self1)
         | (Inl e, self1) \<Rightarrow> ((last_detected_lang self1, 0.0), self1)))"

subsection \<open>\<open>transcribe_and_translate\<close>\<close>

text \<open>
  The first block of the \<open>try\<close>: the language to transcribe in. For \<open>"auto"\<close> the language
  is detected, a confident detection of a language other than English is counted in
  \<open>detected_lang_cache\<close>, and a detection that is not confident is replaced by the most
  frequent cached language or, with an empty cache, by \<open>last_detected_lang\<close>.
\<close>

definition resolve_language ::
  "'w file_system \<Rightarrow> 'w whisper_model \<Rightarrow> string \<Rightarrow> string \<Rightarrow> 'w audio_translator \<Rightarrow>
     (py_exception + string) \<times> 'w audio_translator" where
  "resolve_language fs wm audio_path source_lang self =
     (if source_lang = ''auto'' then
        (case detect_language fs wm audio_path self of
           ((detected_lang, confidence), self1) \<Rightarrow>
             (let self2 =
                    (if detected_lang \<noteq> ''en'' \<and> confidence > 0.3 then
                       self1\<lparr>detected_lang_cache :=
                               dict_set (detected_lang_cache self1) detected_lang
                                 (dict_get (detected_lang_cache self1) detected_lang 0 + 1)\<rparr>
                     else self1)
              in if confidence > 0.3 then (Inr detected_lang, self2)
                 else if detected_lang_cache self2 \<noteq> [] then
                   (py_max_key (detected_lang_cache self2), self2)
                 else (Inr (last_detected_lang self2), self2)))
      else (Inr source_lang, self))"

definition transcription_request :: "bool \<Rightarrow> string \<Rightarrow> string \<Rightarrow> request" where
  "transcription_request nv audio_path source_lang =
     \<lparr>audio = audio_path,
      language = (if source_lang \<noteq> ''auto'' then Some source_lang else None),
      task = Transcribe, vad_filter = (\<not> nv), vad_parameters = Some 300, beam_size = 5,
      condition_on_previous_text = True, no_speech_threshold = 0.6,
      temperature = Some 0.0\<rparr>"

definition translation_request :: "bool \<Rightarrow> string \<Rightarrow> string \<Rightarrow> request" where
  "translation_request nv audio_path source_lang =
     \<lparr>audio = audio_path, language = Some source_lang,
      task = Translate, vad_filter = (\<not> nv), vad_parameters = Some 300, beam_size = 5,
      condition_on_previous_text = True, no_speech_threshold = 0.6,
      temperature = Some 0.1\<rparr>"

text \<open>
  A model call followed by \<open>"".join(seg.text for seg in segments).strip()\<close>: the call or
  the iteration of the segments may raise.
\<close>

definition transcribe_text ::
  "'w whisper_model \<Rightarrow> request \<Rightarrow> 'w audio_translator \<Rightarrow>
     (py_exception + py_text) \<times> 'w audio_translator" where
  "transcribe_text wm req self =
     (case model_transcribe wm req self of
        (Inl e, self1) \<Rightarrow> (Inl e, self1)
      | (Inr (segments, info), self1) \<Rightarrow>
          (case segments of
             Inl e \<Rightarrow> (Inl e, self1)
           | Inr texts \<Rightarrow> (Inr (py_strip (concat texts)), self1)))"

text \<open>
  The body of the \<open>try\<close> of \<open>transcribe_and_translate\<close>. Beside the outcome and the state
  it returns the value the local variable \<open>source_lang\<close> has when the body is left, which
  the handler reads.
\<close>

definition transcribe_and_translate_try ::
  "'w file_system \<Rightarrow> 'w whisper_model \<Rightarrow> string \<Rightarrow> string \<Rightarrow> 'w audio_translator \<Rightarrow>
     (py_exception + py_text \<times> py_text \<times> string) \<times> string \<times> 'w audio_translator" where
  "transcribe_and_translate_try fs wm audio_path source_lang self =
     (case resolve_language fs wm audio_path source_lang self of
        (Inl e, self1) \<Rightarrow> (Inl e, source_lang, self1)
      | (Inr source_lang1, self1) \<Rightarrow>
          (case transcribe_text wm
                  (transcription_request (no_vad self1) audio_path source_lang1) self1 of
             (Inl e, self2) \<Rightarrow> (Inl e, source_lang1, self2)
           | (Inr original_text, self2) \<Rightarrow>
               if original_text = [] \<or> source_lang1 = ''en'' then
                 (Inr (original_text, original_text, source_lang1), source_lang1, self2)
               else
                 (case transcribe_text wm
                         (translation_request (no_vad self2) audio_path source_lang1) self2 of
                    (Inl e, self3) \<Rightarrow> (Inl e, source_lang1, self3)
                  | (Inr translated_text, self3) \<Rightarrow>
                      (let translated_text1 =
                             (if translated_text = [] \<and> original_text \<noteq> [] then original_text
                              else translated_text)
                       in (Inr (original_text, translated_text1, source_lang1),
                           source_lang1, self3)))))"

text \<open>
  The whole method. Its result type keeps the possibility of an exception reaching the
  caller; \<open>except Exception\<close> turns every exception of the body into the empty result.
\<close>

definition transcribe_and_translate ::
  "'w file_system \<Rightarrow> 'w whisper_model \<Rightarrow> string \<Rightarrow> string \<Rightarrow> 'w audio_translator \<Rightarrow>
     (py_exception + py_text \<times> py_text \<times> string) \<times> 'w audio_translator" where
  "transcribe_and_translate fs wm audio_path source_lang self =
     (if \<not> is_valid_audio_file fs self audio_path then
        (Inr ([], [], source_lang), self)
      else
        (case transcribe_and_translate_try fs wm audio_path source_lang self of
           (Inr r, source_lang1, self1) \<Rightarrow> (Inr r, self1)
         | (Inl e, source_lang1, self1) \<Rightarrow> (Inr ([], [], source_lang1), self1)))"

text \<open>A run: the pipeline invoked on one chunk after the other, each with a requested language.\<close>

fun run_chunks ::
  "'w file_system \<Rightarrow> 'w whisper_model \<Rightarrow> (string \<times> string) list \<Rightarrow> 'w audio_translator \<Rightarrow>
     'w audio_translator" where
  "run_chunks fs wm [] self = self"
| "run_chunks fs wm ((audio_path, source_lang) # rest) self =
     run_chunks fs wm rest (snd (transcribe_and_translate fs wm audio_path source_lang self))"

subsection \<open>Observations and the reference definition of the fallback\<close>

text \<open>The calls with \<open>task="translate"\<close> made so far.\<close>

definition translate_calls :: "'w audio_translator \<Rightarrow> request list" where
  "translate_calls self = filter (\<lambda>r. task r = Translate) (calls self)"

text \<open>
  The most frequent language as the specification words it: the entry with the maximum
  count, the first inserted one among equals. It is the first entry, in insertion order,
  whose count no other count exceeds.
\<close>

definition spec_most_frequent :: "('k \<times> int) list \<Rightarrow> 'k option" where
  "spec_most_frequent d = map_option fst (find (\<lambda>p. \<forall>q \<in> set d. snd q \<le> snd p) d)"

subsection \<open>A scripted model for the examples\<close>

text \<open>
  The world is the list of outcomes still to come: each call takes the next one, and a
  call after the last one raises.
\<close>

definition scripted_model :: "(py_exception + response) list whisper_model" where
  "scripted_model w req =
     (case w of
        [] \<Rightarrow> (Inl (OtherException ''script exhausted''), [])
      | r # rs \<Rightarrow> (r, rs))"

text \<open>
  Texts for the examples: an ASCII literal as code points, and the greeting
  "konnichiwa" in hiragana (U+3053 U+3093 U+306B U+3061 U+306F).
\<close>

definition ascii :: "string \<Rightarrow> py_text" where
  "ascii s = map of_char s"

definition konnichiwa :: py_text where
  "konnichiwa = [12371, 12435, 12395, 12385, 12399]"

text \<open>A recorded chunk of three seconds, a capture of 500 bytes, and nothing else.\<close>

definition example_fs :: "'w file_system" where
  "example_fs w p =
     (if p = ''chunk.wav'' then Size 96044 else if p = ''short.wav'' then Size 500 else Absent)"

definition reply :: "py_text list \<Rightarrow> string \<Rightarrow> real \<Rightarrow> py_exception + response" where
  "reply texts lang conf =
     Inr (Inr texts, \<lparr>info_language = Some lang, info_language_probability = Some conf\<rparr>)"

definition failure :: "py_exception + response" where
  "failure = Inl (OtherException ''decode failed'')"

text \<open>
  A run for the examples: a chunk of Japanese speech and then a chunk of English speech,
  both with automatic detection, and the translator after the first of them.
\<close>

definition japanese_then_english :: "(py_exception + response) list" where
  "japanese_then_english =
     [reply [] ''ja'' 0.92, reply [12288 # konnichiwa] ''ja'' 0.92,
      reply [ascii '' Hello''] ''ja'' 0.92,
      reply [] ''en'' 0.9, reply [ascii '' good morning''] ''en'' 0.9]"

definition heard_japanese :: "(py_exception + response) list audio_translator" where
  "heard_japanese =
     snd (transcribe_and_translate example_fs scripted_model ''chunk.wav'' ''auto''
            (init False japanese_then_english))"

text \<open>
  A translator that has counted three languages, two of them equally often, as after
  confident detections of \<open>"ja"\<close> twice, then \<open>"de"\<close> three times, then \<open>"fr"\<close> three times.
\<close>

definition tied_memory ::
  "(py_exception + response) list \<Rightarrow> (py_exception + response) list audio_translator" where
  "tied_memory script =
     \<lparr>no_vad = False, model = script,
      detected_lang_cache = [(''ja'', 2), (''de'', 3), (''fr'', 3)], chunk_count = 7,
      last_detected_lang = ''fr'', calls = []\<rparr>"

text \<open>
  A detection with confidence 0.1, then a transcription and a translation that return.
\<close>

definition weak_detection_script :: "(py_exception + response) list" where
  "weak_detection_script =
     [reply [] ''es'' 0.1, reply [ascii '' hallo''] ''de'' 1, reply [ascii '' hello''] ''de'' 1]"

text \<open>
  Three chunks: Japanese is detected and the transcription raises; a chunk that is not
  usable, for which the model is not called; Japanese is detected again and all calls
  return.
\<close>

definition three_chunks_script :: "(py_exception + response) list" where
  "three_chunks_script =
     [reply [] ''ja'' 0.92, failure,
      reply [] ''ja'' 0.5, reply [konnichiwa] ''ja'' 1, reply [ascii ''Hello''] ''ja'' 1]"

lemmas pipeline_defs =
  transcribe_and_translate_def transcribe_and_translate_try_def resolve_language_def
  detect_language_def detect_language_try_def model_transcribe_def transcribe_text_def
  is_valid_audio_file_def detection_request_def transcription_request_def
  translation_request_def py_strip_def py_isspace_def dict_get_def translate_calls_def
  spec_most_frequent_def Let_def

lemmas example_defs =
  example_fs_def scripted_model_def reply_def failure_def init_def ascii_def konnichiwa_def
  japanese_then_english_def heard_japanese_def tied_memory_def weak_detection_script_def
  three_chunks_script_def

section \<open>Properties\<close>

subsection \<open>Dictionaries\<close>

lemma map_of_dict_set: "map_of (dict_set d k v) = (map_of d)(k \<mapsto> v)"
  by (induction d k v rule: dict_set.induct) (auto simp: fun_eq_iff)

lemma keys_dict_set: "fst ` set (dict_set d k v) = insert k (fst ` set d)"
  by (induction d k v rule: dict_set.induct) auto

lemma dict_get_dict_set: "dict_get (dict_set d k v) k dflt = v"
  by (simp add: dict_get_def map_of_dict_set)

lemma distinct_dict_set: "distinct (map fst d) \<Longrightarrow> distinct (map fst (dict_set d k v))"
  by (induction d k v rule: dict_set.induct) (auto simp: keys_dict_set)

subsection \<open>The maximum of the cache\<close>

lemma ex_greatest_count:
  "d \<noteq> [] \<Longrightarrow> \<exists>p \<in> set d. \<forall>q \<in> set d. snd q \<le> (snd p :: int)"
proof (induction d)
  case Nil
  then show ?case by simp
next
  case (Cons a d)
  show ?case
  proof (cases "d = []")
    case True
    then show ?thesis by simp
  next
    case False
    then obtain p where p: "p \<in> set d" "\<forall>q \<in> set d. snd q \<le> snd p"
      using Cons.IH by blast
    show ?thesis
    proof (cases "snd p \<le> snd a")
      case True
      with p have "\<forall>q \<in> set (a # d). snd q \<le> snd a" by auto
      then show ?thesis by auto
    next
      case False
      with p have "\<forall>q \<in> set (a # d). snd q \<le> snd p" by auto
      with p(1) show ?thesis by auto
    qed
  qed
qed

lemma find_agree:
  assumes "\<And>x. x \<in> set xs \<Longrightarrow> P x = Q x"
  shows "find P xs = find Q xs"
  using assms by (induction xs) auto

lemma find_skip: "\<not> P a \<Longrightarrow> find P (a # xs) = find P xs"
  by simp

lemma find_hit: "P a \<Longrightarrow> find P (a # xs) = Some a"
  by simp

text \<open>
  The loop of \<open>max\<close> started with \<open>b\<close>: it ends with the first entry that is greater than
  \<open>b\<close> and not exceeded by any entry, and with \<open>b\<close> if there is none.
\<close>

lemma fold_max_step:
  "fold (\<lambda>item best. if snd best < snd item then item else best) d (b :: 'k \<times> int) =
     (case find (\<lambda>p. snd b < snd p \<and> (\<forall>q \<in> set d. snd q \<le> snd p)) d of
        None \<Rightarrow> b | Some p \<Rightarrow> p)"
proof (induction d arbitrary: b)
  case Nil
  then show ?case by simp
next
  case (Cons a d)
  let ?f = "\<lambda>item best. if snd best < snd item then item else (best :: 'k \<times> int)"
  let ?P = "\<lambda>p. snd b < snd p \<and> (\<forall>q \<in> set (a # d). snd q \<le> snd p)"
  let ?R = "\<lambda>c p. snd c < snd p \<and> (\<forall>q \<in> set d. snd q \<le> snd p)"
  show ?case
  proof (cases "snd b < snd a")
    case True
    note ba = True
    have step: "fold ?f (a # d) b = (case find (?R a) d of None \<Rightarrow> a | Some p \<Rightarrow> p)"
      using ba Cons.IH [of a] by simp
    show ?thesis
    proof (cases "\<forall>q \<in> set d. snd q \<le> snd a")
      case True
      then have "find (?R a) d = None"
        unfolding find_None_iff by force
      moreover have "?P a" using ba True by simp
      then have "find ?P (a # d) = Some a" by (rule find_hit)
      ultimately show ?thesis using step by simp
    next
      case False
      then have "\<not> ?P a" by auto
      then have "find ?P (a # d) = find ?P d" by (rule find_skip)
      moreover have "find (?R a) d = find ?P d"
      proof (rule find_agree)
        fix x assume "x \<in> set d"
        from False obtain y where "y \<in> set d" "snd a < snd y" by force
        then show "?R a x = ?P x" using ba by force
      qed
      moreover have "find ?P d \<noteq> None"
      proof -
        from False have "d \<noteq> []" by auto
        then obtain p where p: "p \<in> set d" "\<forall>q \<in> set d. snd q \<le> snd p"
          using ex_greatest_count by blast
        from False obtain y where "y \<in> set d" "snd a < snd y" by force
        with p ba have "?P p" by force
        with p(1) show ?thesis unfolding find_None_iff by blast
      qed
      ultimately show ?thesis using step by (auto simp only: option.case split: option.splits)
    qed
  next
    case False
    have step: "fold ?f (a # d) b = (case find (?R b) d of None \<Rightarrow> b | Some p \<Rightarrow> p)"
      using False Cons.IH [of b] by simp
    from False have "\<not> ?P a" by auto
    then have "find ?P (a # d) = find ?P d" by (rule find_skip)
    moreover have "find (?R b) d = find ?P d"
    proof (rule find_agree)
      fix x assume "x \<in> set d"
      show "?R b x = ?P x" using False by force
    qed
    ultimately show ?thesis using step by simp
  qed
qed

text \<open>\<open>max(d, key=d.get)\<close> computes the most frequent language of the specification.\<close>

lemma py_max_key_spec:
  "py_max_key d = (case spec_most_frequent d of None \<Rightarrow> Inl ValueError | Some k \<Rightarrow> Inr k)"
proof (cases d)
  case Nil
  then show ?thesis by (simp add: spec_most_frequent_def)
next
  case (Cons a d')
  let ?Q = "\<lambda>p. \<forall>q \<in> set (a # d'). snd q \<le> snd p"
  let ?R = "\<lambda>p. snd a < snd p \<and> (\<forall>q \<in> set d'. snd q \<le> snd p)"
  have code: "py_max_key d = Inr (fst (case find ?R d' of None \<Rightarrow> a | Some p \<Rightarrow> p))"
    unfolding Cons by (simp add: fold_max_step)
  have spec: "spec_most_frequent d = map_option fst (find ?Q (a # d'))"
    unfolding Cons spec_most_frequent_def ..
  show ?thesis
  proof (cases "?Q a")
    case True
    then have "find ?R d' = None"
      unfolding find_None_iff by force
    moreover from True have "find ?Q (a # d') = Some a" by (rule find_hit)
    ultimately show ?thesis using code spec by simp
  next
    case False
    then have "find ?Q (a # d') = find ?Q d'" by (rule find_skip)
    moreover have "find ?R d' = find ?Q d'"
    proof (rule find_agree)
      fix x assume "x \<in> set d'"
      from False obtain y where "y \<in> set d'" "snd a < snd y" by force
      then show "?R x = ?Q x" by force
    qed
    moreover have "find ?Q d' \<noteq> None"
    proof -
      obtain p where p: "p \<in> set (a # d')" "?Q p"
        using ex_greatest_count [of "a # d'"] by blast
      with False have "p \<in> set d'" by auto
      with p(2) show ?thesis unfolding find_None_iff by blast
    qed
    ultimately show ?thesis
      using code spec by (auto simp only: option.case option.map split: option.splits)
  qed
qed

lemma fold_max_in:
  "fold (\<lambda>item best. if snd best < snd item then item else best) d (b :: 'k \<times> int)
     \<in> insert b (set d)"
  by (induction d arbitrary: b) (auto split: if_splits)

lemma py_max_key_in_keys: "py_max_key d = Inr k \<Longrightarrow> k \<in> fst ` set d"
proof (cases d)
  case Nil
  assume "py_max_key d = Inr k"
  with Nil show ?thesis by simp
next
  case (Cons a d')
  assume "py_max_key d = Inr k"
  then have "k = fst (fold (\<lambda>item best. if snd best < snd item then item else best) d' a)"
    by (simp add: Cons)
  moreover have "fold (\<lambda>item best. if snd best < snd item then item else best) d' a \<in> set d"
    using fold_max_in [of d' a] by (simp add: Cons)
  ultimately show ?thesis by (rule_tac image_eqI)
qed

text \<open>On a cache that is not empty \<open>max\<close> does not raise.\<close>

lemma py_max_key_returns: "d \<noteq> [] \<Longrightarrow> \<exists>k. py_max_key d = Inr k"
  by (cases d) auto

subsection \<open>What the steps of the pipeline change\<close>

lemma model_transcribe_frame:
  assumes "model_transcribe wm req self = (r, self1)"
  shows "detected_lang_cache self1 = detected_lang_cache self \<and>
         last_detected_lang self1 = last_detected_lang self \<and>
         no_vad self1 = no_vad self \<and>
         calls self1 = calls self @ [req]"
  using assms by (auto simp: model_transcribe_def split: prod.splits)

lemma transcribe_text_frame:
  assumes "transcribe_text wm req self = (r, self1)"
  shows "detected_lang_cache self1 = detected_lang_cache self \<and>
         last_detected_lang self1 = last_detected_lang self \<and>
         no_vad self1 = no_vad self \<and>
         calls self1 = calls self @ [req]"
  using assms
  by (auto simp: transcribe_text_def split: prod.splits sum.splits dest: model_transcribe_frame)

lemma transcription_adds_no_translate_call:
  assumes "transcribe_text wm (transcription_request nv audio_path lang) self = (r, self1)"
  shows "translate_calls self1 = translate_calls self"
  using transcribe_text_frame [OF assms]
  by (simp add: translate_calls_def transcription_request_def)

text \<open>
  \<open>detect_language\<close> leaves the cache alone, sets \<open>last_detected_lang\<close> exactly when the
  confidence it returns is above 0.3, and makes no translate call.
\<close>

lemma detect_language_effect:
  assumes "detect_language fs wm audio_path self = ((lang, conf), self1)"
  shows "detected_lang_cache self1 = detected_lang_cache self \<and>
         last_detected_lang self1 = (if conf > 0.3 then lang else last_detected_lang self) \<and>
         no_vad self1 = no_vad self \<and>
         translate_calls self1 = translate_calls self"
  using assms
  by (auto simp: detect_language_def detect_language_try_def Let_def translate_calls_def
      detection_request_def
      split: prod.splits sum.splits if_splits option.splits dest!: model_transcribe_frame)

lemma resolve_explicit:
  "source_lang \<noteq> ''auto'' \<Longrightarrow>
     resolve_language fs wm audio_path source_lang self = (Inr source_lang, self)"
  by (simp add: resolve_language_def)

lemma resolve_auto:
  assumes "detect_language fs wm audio_path self = ((lang, conf), self1)"
  shows "resolve_language fs wm audio_path ''auto'' self =
           (if conf > 0.3 then
              (Inr lang,
               if lang \<noteq> ''en'' then
                 self1\<lparr>detected_lang_cache :=
                         dict_set (detected_lang_cache self) lang
                           (dict_get (detected_lang_cache self) lang 0 + 1)\<rparr>
               else self1)
            else if detected_lang_cache self \<noteq> [] then
              (py_max_key (detected_lang_cache self), self1)
            else (Inr (last_detected_lang self), self1))"
  using detect_language_effect [OF assms] assms
  by (simp add: resolve_language_def Let_def)

lemma resolve_translate_calls:
  assumes "resolve_language fs wm audio_path source_lang self = (rl, self1)"
  shows "translate_calls self1 = translate_calls self \<and> no_vad self1 = no_vad self"
proof (cases "source_lang = ''auto''")
  case False
  with assms show ?thesis by (simp add: resolve_explicit)
next
  case True
  obtain lang conf self0 where d: "detect_language fs wm audio_path self = ((lang, conf), self0)"
    by (metis prod.exhaust)
  from assms detect_language_effect [OF d] show ?thesis
    unfolding True resolve_auto [OF d]
    by (auto simp: translate_calls_def split: if_splits)
qed

text \<open>After the language is resolved the memory is not written again.\<close>

lemma try_memory_after_resolve:
  assumes "resolve_language fs wm audio_path source_lang self = (rl, self1)"
    and "transcribe_and_translate_try fs wm audio_path source_lang self = (r, l, self2)"
  shows "detected_lang_cache self2 = detected_lang_cache self1 \<and>
         last_detected_lang self2 = last_detected_lang self1"
  using assms
  by (auto simp: transcribe_and_translate_try_def
      split: prod.splits sum.splits if_splits dest!: transcribe_text_frame)

lemma memory_after_resolve:
  assumes "is_valid_audio_file fs self audio_path"
    and "resolve_language fs wm audio_path source_lang self = (rl, self1)"
  shows "detected_lang_cache (snd (transcribe_and_translate fs wm audio_path source_lang self)) =
           detected_lang_cache self1 \<and>
         last_detected_lang (snd (transcribe_and_translate fs wm audio_path source_lang self)) =
           last_detected_lang self1"
  using assms
  by (auto simp: transcribe_and_translate_def split: prod.splits sum.splits
      dest!: try_memory_after_resolve)

text \<open>The language of the result is the resolved one, on every path through the body.\<close>

lemma result_language:
  assumes "is_valid_audio_file fs self audio_path"
    and "resolve_language fs wm audio_path source_lang self = (Inr lang, self1)"
  shows "\<exists>original translated.
           fst (transcribe_and_translate fs wm audio_path source_lang self) =
             Inr (original, translated, lang)"
  using assms
  by (auto simp: transcribe_and_translate_def transcribe_and_translate_try_def Let_def
      split: prod.splits sum.splits if_splits)

subsection \<open>The validity gate\<close>

lemma is_valid_audio_file_iff:
  "is_valid_audio_file fs self audio_path \<longleftrightarrow>
     (\<exists>n. fs (model self) audio_path = Size n \<and> 1024 < n)"
  by (simp add: is_valid_audio_file_def split: file_status.splits)

text \<open>
  C5. A chunk that is not usable (the file is missing, its size cannot be read, or its
  size does not exceed 1024 bytes) gives the result with empty original and translated
  text, and the translator is left as it was: in particular no call of the model is made.
\<close>

theorem invalid_chunk_empty_result_no_calls:
  assumes "\<not> is_valid_audio_file fs self audio_path"
  shows "transcribe_and_translate fs wm audio_path source_lang self =
           (Inr ([], [], source_lang), self) \<and>
         calls (snd (transcribe_and_translate fs wm audio_path source_lang self)) = calls self"
  using assms by (simp add: transcribe_and_translate_def)

theorem invalid_chunk_empty_result_no_calls_witness:
  "\<not> is_valid_audio_file example_fs (init False [failure]) ''short.wav'' \<and>
   transcribe_and_translate example_fs scripted_model ''short.wav'' ''ja'' (init False [failure]) =
     (Inr ([], [], ''ja''), init False [failure]) \<and>
   calls (snd (transcribe_and_translate example_fs scripted_model ''short.wav'' ''ja''
                 (init False [failure]))) = []"
proof -
  have h: "\<not> is_valid_audio_file example_fs (init False [failure]) ''short.wav''"
    by (simp add: is_valid_audio_file_def example_defs)
  show ?thesis
    using h invalid_chunk_empty_result_no_calls [OF h, of scripted_model "''ja''"]
    by (simp add: init_def)
qed

subsection \<open>The resolved language\<close>

lemma detect_language_not_auto:
  assumes "last_detected_lang self \<noteq> ''auto''"
    and "\<forall>segments info.
           fst (wm (model self) (detection_request (no_vad self) audio_path)) =
             Inr (segments, info) \<longrightarrow> info_language info \<noteq> Some ''auto''"
    and "detect_language fs wm audio_path self = ((lang, conf), self1)"
  shows "lang \<noteq> ''auto''"
  using assms
  by (auto simp: detect_language_def detect_language_try_def model_transcribe_def Let_def
      split: prod.splits sum.splits if_splits option.splits)

lemma resolve_not_auto:
  assumes "last_detected_lang self \<noteq> ''auto''"
    and "''auto'' \<notin> fst ` set (detected_lang_cache self)"
    and "\<forall>segments info.
           fst (wm (model self) (detection_request (no_vad self) audio_path)) =
             Inr (segments, info) \<longrightarrow> info_language info \<noteq> Some ''auto''"
  shows "\<exists>lang self1. resolve_language fs wm audio_path source_lang self = (Inr lang, self1) \<and>
           lang \<noteq> ''auto'' \<and> last_detected_lang self1 \<noteq> ''auto'' \<and>
           ''auto'' \<notin> fst ` set (detected_lang_cache self1)"
proof (cases "source_lang = ''auto''")
  case False
  with assms show ?thesis by (simp add: resolve_explicit)
next
  case True
  obtain lang conf self1 where d: "detect_language fs wm audio_path self = ((lang, conf), self1)"
    by (metis prod.exhaust)
  have lang: "lang \<noteq> ''auto''"
    using detect_language_not_auto [of self wm audio_path fs lang conf self1] assms(1,3) d
    by blast
  note eff = detect_language_effect [OF d]
  show ?thesis
  proof (cases "conf > 0.3")
    case True
    with lang eff assms(2) show ?thesis
      unfolding \<open>source_lang = ''auto''\<close> resolve_auto [OF d]
      by (simp add: keys_dict_set)
  next
    case low: False
    show ?thesis
    proof (cases "detected_lang_cache self = []")
      case True
      with low eff assms(1,2) show ?thesis
        unfolding \<open>source_lang = ''auto''\<close> resolve_auto [OF d] by simp
    next
      case False
      then obtain k where k: "py_max_key (detected_lang_cache self) = Inr k"
        using py_max_key_returns by blast
      then have "k \<noteq> ''auto''" using py_max_key_in_keys assms(2) by metis
      with k False low eff assms(1,2) show ?thesis
        unfolding \<open>source_lang = ''auto''\<close> resolve_auto [OF d] by simp
    qed
  qed
qed

text \<open>
  The memory holds \<open>"auto"\<close> after an invocation only if it did before or the model
  reported it; the memory of \<open>init\<close> does not hold it.
\<close>

lemma memory_never_auto:
  assumes "last_detected_lang self \<noteq> ''auto''"
    and "''auto'' \<notin> fst ` set (detected_lang_cache self)"
    and "\<forall>segments info.
           fst (wm (model self) (detection_request (no_vad self) audio_path)) =
             Inr (segments, info) \<longrightarrow> info_language info \<noteq> Some ''auto''"
  shows "last_detected_lang (snd (transcribe_and_translate fs wm audio_path source_lang self))
           \<noteq> ''auto'' \<and>
         ''auto'' \<notin> fst ` set (detected_lang_cache
           (snd (transcribe_and_translate fs wm audio_path source_lang self)))"
proof (cases "is_valid_audio_file fs self audio_path")
  case False
  with assms show ?thesis by (simp add: transcribe_and_translate_def)
next
  case True
  obtain lang self1 where
    r: "resolve_language fs wm audio_path source_lang self = (Inr lang, self1)"
    and m: "last_detected_lang self1 \<noteq> ''auto''" "''auto'' \<notin> fst ` set (detected_lang_cache self1)"
    using resolve_not_auto [of self wm audio_path fs source_lang] assms by blast
  from memory_after_resolve [OF True r] m show ?thesis by simp
qed

text \<open>
  C1, as stated, fails: an invocation on a chunk that is not usable returns the requested
  language as it is, so with \<open>"auto"\<close> requested the result carries \<open>"auto"\<close>. Here the
  chunk has 500 bytes.
\<close>

theorem invalid_chunk_returns_auto:
  "\<not> is_valid_audio_file example_fs (init False []) ''short.wav'' \<and>
   fst (transcribe_and_translate example_fs scripted_model ''short.wav'' ''auto''
          (init False [])) = Inr ([], [], ''auto'')"
  by (simp add: transcribe_and_translate_def is_valid_audio_file_def example_defs)

text \<open>
  C1, amended. Let the memory not hold \<open>"auto"\<close> (neither \<open>last_detected_lang\<close> nor a key
  of the cache is \<open>"auto"\<close>) and let the model not report \<open>"auto"\<close> as the language it
  detects in this chunk. Then every invocation returns a result, and the language of the
  result is \<open>"auto"\<close> exactly when the chunk is not usable and \<open>"auto"\<close> was requested. On
  a usable chunk the language of the result is therefore never \<open>"auto"\<close>, on the path
  where a failure is caught too.
\<close>

theorem resolved_language_auto_iff:
  assumes "last_detected_lang self \<noteq> ''auto''"
    and "''auto'' \<notin> fst ` set (detected_lang_cache self)"
    and "\<forall>segments info.
           fst (wm (model self) (detection_request (no_vad self) audio_path)) =
             Inr (segments, info) \<longrightarrow> info_language info \<noteq> Some ''auto''"
  shows "\<exists>original translated lang.
           fst (transcribe_and_translate fs wm audio_path source_lang self) =
             Inr (original, translated, lang) \<and>
           (lang = ''auto'' \<longleftrightarrow>
              \<not> is_valid_audio_file fs self audio_path \<and> source_lang = ''auto'')"
proof (cases "is_valid_audio_file fs self audio_path")
  case False
  then show ?thesis by (simp add: transcribe_and_translate_def)
next
  case True
  obtain lang self1 where
    r: "resolve_language fs wm audio_path source_lang self = (Inr lang, self1)"
    and lang: "lang \<noteq> ''auto''"
    using resolve_not_auto [of self wm audio_path fs source_lang] assms by blast
  from result_language [OF True r] lang True show ?thesis by blast
qed

theorem resolved_language_auto_iff_witness:
  "is_valid_audio_file example_fs (init False [reply [] ''ja'' 0.92, failure]) ''chunk.wav'' \<and>
   last_detected_lang (init False [reply [] ''ja'' 0.92, failure]) \<noteq> ''auto'' \<and>
   ''auto'' \<notin> fst ` set (detected_lang_cache (init False [reply [] ''ja'' 0.92, failure])) \<and>
   (\<exists>original translated lang.
      fst (transcribe_and_translate example_fs scripted_model ''chunk.wav'' ''auto''
             (init False [reply [] ''ja'' 0.92, failure])) = Inr (original, translated, lang) \<and>
      lang \<noteq> ''auto'') \<and>
   fst (transcribe_and_translate example_fs scripted_model ''chunk.wav'' ''auto''
          (init False [reply [] ''ja'' 0.92, failure])) = Inr ([], [], ''ja'')"
proof -
  let ?self = "init False [reply [] ''ja'' 0.92, failure]"
  have v: "is_valid_audio_file example_fs ?self ''chunk.wav''"
    by (simp add: is_valid_audio_file_def example_defs)
  have h1: "last_detected_lang ?self \<noteq> ''auto''"
    and h2: "''auto'' \<notin> fst ` set (detected_lang_cache ?self)"
    by (simp_all add: init_def)
  have h3: "\<forall>segments info.
              fst (scripted_model (model ?self) (detection_request (no_vad ?self) ''chunk.wav'')) =
                Inr (segments, info) \<longrightarrow> info_language info \<noteq> Some ''auto''"
    by (auto simp: example_defs)
  have r: "fst (transcribe_and_translate example_fs scripted_model ''chunk.wav'' ''auto'' ?self) =
             Inr ([], [], ''ja'')"
    by (simp add: pipeline_defs example_defs)
  from resolved_language_auto_iff [of ?self scripted_model "''chunk.wav''" example_fs "''auto''",
      OF h1 h2 h3] v
  have "\<exists>original translated lang.
          fst (transcribe_and_translate example_fs scripted_model ''chunk.wav'' ''auto'' ?self) =
            Inr (original, translated, lang) \<and> lang \<noteq> ''auto''"
    by blast
  with v h1 h2 r show ?thesis by blast
qed

subsection \<open>Explicit language requests\<close>

text \<open>
  C7. An invocation with an explicit requested language (any language other than
  \<open>"auto"\<close>) leaves the language memory, that is the frequency table
  \<open>detected_lang_cache\<close> and \<open>last_detected_lang\<close>, unchanged on every exit path:
  whatever the file system and the model do, failures included.
\<close>

theorem explicit_language_keeps_memory:
  assumes "source_lang \<noteq> ''auto''"
  shows "detected_lang_cache (snd (transcribe_and_translate fs wm audio_path source_lang self)) =
           detected_lang_cache self \<and>
         last_detected_lang (snd (transcribe_and_translate fs wm audio_path source_lang self)) =
           last_detected_lang self"
proof (cases "is_valid_audio_file fs self audio_path")
  case True
  then show ?thesis
    using memory_after_resolve [OF True resolve_explicit [OF assms]] by simp
next
  case False
  then show ?thesis by (simp add: transcribe_and_translate_def)
qed

theorem explicit_language_keeps_memory_witness:
  "''de'' \<noteq> ''auto'' \<and>
   fst (transcribe_and_translate example_fs scripted_model ''chunk.wav'' ''de''
          (tied_memory [reply [ascii '' guten Morgen''] ''de'' 1, failure])) = Inr ([], [], ''de'') \<and>
   detected_lang_cache (snd (transcribe_and_translate example_fs scripted_model ''chunk.wav'' ''de''
       (tied_memory [reply [ascii '' guten Morgen''] ''de'' 1, failure]))) =
     [(''ja'', 2), (''de'', 3), (''fr'', 3)] \<and>
   last_detected_lang (snd (transcribe_and_translate example_fs scripted_model ''chunk.wav'' ''de''
       (tied_memory [reply [ascii '' guten Morgen''] ''de'' 1, failure]))) = ''fr''"
proof -
  let ?self = "tied_memory [reply [ascii '' guten Morgen''] ''de'' 1, failure]"
  have h: "''de'' \<noteq> ''auto''" by simp
  have r: "fst (transcribe_and_translate example_fs scripted_model ''chunk.wav'' ''de'' ?self) =
             Inr ([], [], ''de'')"
    by (simp add: pipeline_defs example_defs)
  from explicit_language_keeps_memory [OF h, of example_fs scripted_model "''chunk.wav''" ?self]
  have "detected_lang_cache
          (snd (transcribe_and_translate example_fs scripted_model ''chunk.wav'' ''de'' ?self)) =
          [(''ja'', 2), (''de'', 3), (''fr'', 3)] \<and>
        last_detected_lang
          (snd (transcribe_and_translate example_fs scripted_model ''chunk.wav'' ''de'' ?self)) =
          ''fr''"
    by (simp add: tied_memory_def)
  with h r show ?thesis by blast
qed

subsection \<open>The language memory\<close>

text \<open>
  C3, as stated, fails: a confident detection of English overwrites \<open>last_detected_lang\<close>.
  After a chunk of Japanese \<open>last_detected_lang\<close> is \<open>"ja"\<close>; the next chunk is detected as
  \<open>"en"\<close> with confidence 0.9, and \<open>last_detected_lang\<close> becomes \<open>"en"\<close>.
\<close>

theorem confident_english_overwrites_last_detected_lang:
  "is_valid_audio_file example_fs heard_japanese ''chunk.wav'' \<and>
   last_detected_lang heard_japanese = ''ja'' \<and>
   fst (detect_language example_fs scripted_model ''chunk.wav'' heard_japanese) = (''en'', 0.9) \<and>
   last_detected_lang
     (snd (transcribe_and_translate example_fs scripted_model ''chunk.wav'' ''auto''
             heard_japanese)) = ''en''"
  by (simp add: pipeline_defs example_defs)

text \<open>
  C3, amended. On a usable chunk with \<open>"auto"\<close> requested, let \<open>detect_language\<close> return
  the language \<open>lang\<close> with confidence \<open>conf\<close>. After the invocation \<open>last_detected_lang\<close>
  is \<open>lang\<close> if \<open>conf\<close> exceeds 0.3, whether or not \<open>lang\<close> is \<open>"en"\<close>, and is unchanged
  otherwise. The frequency table is the one before with the count of \<open>lang\<close> incremented by
  one if \<open>conf\<close> exceeds 0.3 and \<open>lang\<close> is not \<open>"en"\<close>, and is unchanged otherwise: only
  the increment of the count requires a language other than \<open>"en"\<close>.
\<close>

theorem last_detected_lang_follows_confident_detection:
  assumes "is_valid_audio_file fs self audio_path"
    and "fst (detect_language fs wm audio_path self) = (lang, conf)"
  shows "last_detected_lang (snd (transcribe_and_translate fs wm audio_path ''auto'' self)) =
           (if conf > 0.3 then lang else last_detected_lang self) \<and>
         detected_lang_cache (snd (transcribe_and_translate fs wm audio_path ''auto'' self)) =
           (if conf > 0.3 \<and> lang \<noteq> ''en'' then
              dict_set (detected_lang_cache self) lang
                (dict_get (detected_lang_cache self) lang 0 + 1)
            else detected_lang_cache self)"
proof -
  obtain self1 where d: "detect_language fs wm audio_path self = ((lang, conf), self1)"
    using assms(2) by (metis prod.collapse)
  obtain rl self2 where r: "resolve_language fs wm audio_path ''auto'' self = (rl, self2)"
    by (metis prod.exhaust)
  have last: "last_detected_lang self2 = (if conf > 0.3 then lang else last_detected_lang self)"
    using r detect_language_effect [OF d] unfolding resolve_auto [OF d]
    by (auto split: if_splits)
  have cache: "detected_lang_cache self2 =
                 (if conf > 0.3 \<and> lang \<noteq> ''en'' then
                    dict_set (detected_lang_cache self) lang
                      (dict_get (detected_lang_cache self) lang 0 + 1)
                  else detected_lang_cache self)"
    using r detect_language_effect [OF d] unfolding resolve_auto [OF d]
    by (auto split: if_splits)
  from memory_after_resolve [OF assms(1) r] last cache show ?thesis by simp
qed

theorem last_detected_lang_follows_confident_detection_witness:
  "is_valid_audio_file example_fs (init False japanese_then_english) ''chunk.wav'' \<and>
   fst (detect_language example_fs scripted_model ''chunk.wav''
          (init False japanese_then_english)) = (''ja'', 0.92) \<and>
   last_detected_lang (init False japanese_then_english) = ''en'' \<and>
   last_detected_lang
     (snd (transcribe_and_translate example_fs scripted_model ''chunk.wav'' ''auto''
             (init False japanese_then_english))) = ''ja'' \<and>
   detected_lang_cache
     (snd (transcribe_and_translate example_fs scripted_model ''chunk.wav'' ''auto''
             (init False japanese_then_english))) = [(''ja'', 1)] \<and>
   is_valid_audio_file example_fs heard_japanese ''chunk.wav'' \<and>
   fst (detect_language example_fs scripted_model ''chunk.wav'' heard_japanese) = (''en'', 0.9) \<and>
   last_detected_lang
     (snd (transcribe_and_translate example_fs scripted_model ''chunk.wav'' ''auto''
             heard_japanese)) = ''en'' \<and>
   detected_lang_cache
     (snd (transcribe_and_translate example_fs scripted_model ''chunk.wav'' ''auto''
             heard_japanese)) = [(''ja'', 1)] \<and>
   is_valid_audio_file example_fs (tied_memory weak_detection_script) ''chunk.wav'' \<and>
   fst (detect_language example_fs scripted_model ''chunk.wav''
          (tied_memory weak_detection_script)) = (''es'', 0.1) \<and>
   last_detected_lang
     (snd (transcribe_and_translate example_fs scripted_model ''chunk.wav'' ''auto''
             (tied_memory weak_detection_script))) = ''fr'' \<and>
   detected_lang_cache
     (snd (transcribe_and_translate example_fs scripted_model ''chunk.wav'' ''auto''
             (tied_memory weak_detection_script))) = [(''ja'', 2), (''de'', 3), (''fr'', 3)]"
proof -
  let ?fresh = "init False japanese_then_english"
  let ?weak = "tied_memory weak_detection_script"
  have v1: "is_valid_audio_file example_fs ?fresh ''chunk.wav''"
    by (simp add: is_valid_audio_file_def example_defs)
  have d1: "fst (detect_language example_fs scripted_model ''chunk.wav'' ?fresh) = (''ja'', 0.92)"
    by (simp add: pipeline_defs example_defs)
  have l1: "last_detected_lang ?fresh = ''en''" and c1: "detected_lang_cache ?fresh = []"
    by (simp_all add: init_def)
  from last_detected_lang_follows_confident_detection [OF v1 d1] c1
  have r1: "last_detected_lang
              (snd (transcribe_and_translate example_fs scripted_model ''chunk.wav'' ''auto''
                      ?fresh)) = ''ja'' \<and>
            detected_lang_cache
              (snd (transcribe_and_translate example_fs scripted_model ''chunk.wav'' ''auto''
                      ?fresh)) = [(''ja'', 1)]"
    by (simp add: dict_get_def)
  have v2: "is_valid_audio_file example_fs heard_japanese ''chunk.wav''"
    by (simp add: pipeline_defs example_defs)
  have d2: "fst (detect_language example_fs scripted_model ''chunk.wav'' heard_japanese) =
              (''en'', 0.9)"
    by (simp add: pipeline_defs example_defs)
  have c2: "detected_lang_cache heard_japanese = [(''ja'', 1)]"
    by (simp add: pipeline_defs example_defs)
  from last_detected_lang_follows_confident_detection [OF v2 d2] c2
  have r2: "last_detected_lang
              (snd (transcribe_and_translate example_fs scripted_model ''chunk.wav'' ''auto''
                      heard_japanese)) = ''en'' \<and>
            detected_lang_cache
              (snd (transcribe_and_translate example_fs scripted_model ''chunk.wav'' ''auto''
                      heard_japanese)) = [(''ja'', 1)]"
    by simp
  have v3: "is_valid_audio_file example_fs ?weak ''chunk.wav''"
    by (simp add: is_valid_audio_file_def example_defs)
  have d3: "fst (detect_language example_fs scripted_model ''chunk.wav'' ?weak) = (''es'', 0.1)"
    by (simp add: pipeline_defs example_defs)
  have l3: "last_detected_lang ?weak = ''fr''"
    and c3: "detected_lang_cache ?weak = [(''ja'', 2), (''de'', 3), (''fr'', 3)]"
    by (simp_all add: tied_memory_def)
  from last_detected_lang_follows_confident_detection [OF v3 d3] l3 c3
  have r3: "last_detected_lang
              (snd (transcribe_and_translate example_fs scripted_model ''chunk.wav'' ''auto''
                      ?weak)) = ''fr'' \<and>
            detected_lang_cache
              (snd (transcribe_and_translate example_fs scripted_model ''chunk.wav'' ''auto''
                      ?weak)) = [(''ja'', 2), (''de'', 3), (''fr'', 3)]"
    by simp
  from v1 d1 l1 r1 v2 d2 r2 v3 d3 r3 show ?thesis by blast
qed

text \<open>
  C4. On a usable chunk with \<open>"auto"\<close> requested, let the confidence that
  \<open>detect_language\<close> returns be at most 0.3 (a failed detection returns 0). If the
  frequency table is not empty, the language of the result is the most frequent language
  of the table in the sense of the specification: the entry with the maximum count, the
  first inserted one among equals. If the table is empty, the language of the result is
  \<open>last_detected_lang\<close>.
\<close>

theorem low_confidence_resolves_from_memory:
  assumes "is_valid_audio_file fs self audio_path"
    and "snd (fst (detect_language fs wm audio_path self)) \<le> 0.3"
  shows "(detected_lang_cache self \<noteq> [] \<longrightarrow>
            (\<exists>k original translated.
               spec_most_frequent (detected_lang_cache self) = Some k \<and>
               fst (transcribe_and_translate fs wm audio_path ''auto'' self) =
                 Inr (original, translated, k))) \<and>
         (detected_lang_cache self = [] \<longrightarrow>
            (\<exists>original translated.
               fst (transcribe_and_translate fs wm audio_path ''auto'' self) =
                 Inr (original, translated, last_detected_lang self)))"
proof -
  obtain lang conf self1 where d: "detect_language fs wm audio_path self = ((lang, conf), self1)"
    by (metis prod.exhaust)
  with assms(2) have low: "\<not> conf > 0.3" by simp
  show ?thesis
  proof (cases "detected_lang_cache self = []")
    case True
    with low have "resolve_language fs wm audio_path ''auto'' self =
                     (Inr (last_detected_lang self), self1)"
      unfolding resolve_auto [OF d] by simp
    from result_language [OF assms(1) this] True show ?thesis by simp
  next
    case False
    then obtain k where k: "py_max_key (detected_lang_cache self) = Inr k"
      using py_max_key_returns by blast
    then have spec: "spec_most_frequent (detected_lang_cache self) = Some k"
      unfolding py_max_key_spec by (simp split: option.splits)
    from low False k have "resolve_language fs wm audio_path ''auto'' self = (Inr k, self1)"
      unfolding resolve_auto [OF d] by simp
    from result_language [OF assms(1) this] False spec show ?thesis by simp
  qed
qed

theorem low_confidence_resolves_from_memory_witness:
  "is_valid_audio_file example_fs (tied_memory weak_detection_script) ''chunk.wav'' \<and>
   snd (fst (detect_language example_fs scripted_model ''chunk.wav''
               (tied_memory weak_detection_script))) \<le> 0.3 \<and>
   spec_most_frequent [(''ja'', 2), (''de'', 3), (''fr'', 3 :: int)] = Some ''de'' \<and>
   fst (transcribe_and_translate example_fs scripted_model ''chunk.wav'' ''auto''
          (tied_memory weak_detection_script)) = Inr (ascii ''hallo'', ascii ''hello'', ''de'') \<and>
   is_valid_audio_file example_fs (init False weak_detection_script) ''chunk.wav'' \<and>
   snd (fst (detect_language example_fs scripted_model ''chunk.wav''
               (init False weak_detection_script))) \<le> 0.3 \<and>
   fst (transcribe_and_translate example_fs scripted_model ''chunk.wav'' ''auto''
          (init False weak_detection_script)) = Inr (ascii ''hallo'', ascii ''hallo'', ''en'')"
proof -
  let ?tied = "tied_memory weak_detection_script"
  let ?cold = "init False weak_detection_script"
  have v1: "is_valid_audio_file example_fs ?tied ''chunk.wav''"
    by (simp add: is_valid_audio_file_def example_defs)
  have c1: "snd (fst (detect_language example_fs scripted_model ''chunk.wav'' ?tied)) \<le> 0.3"
    by (simp add: pipeline_defs example_defs)
  have r1: "fst (transcribe_and_translate example_fs scripted_model ''chunk.wav'' ''auto'' ?tied) =
              Inr (ascii ''hallo'', ascii ''hello'', ''de'')"
    by (simp add: pipeline_defs example_defs)
  have v2: "is_valid_audio_file example_fs ?cold ''chunk.wav''"
    by (simp add: is_valid_audio_file_def example_defs)
  have c2: "snd (fst (detect_language example_fs scripted_model ''chunk.wav'' ?cold)) \<le> 0.3"
    by (simp add: pipeline_defs example_defs)
  have n1: "detected_lang_cache ?tied \<noteq> []" and n2: "detected_lang_cache ?cold = []"
    and l2: "last_detected_lang ?cold = ''en''"
    by (simp_all add: tied_memory_def init_def)
  from low_confidence_resolves_from_memory [OF v1 c1] n1 r1
  have "spec_most_frequent (detected_lang_cache ?tied) = Some ''de''"
    by auto
  then have s1: "spec_most_frequent [(''ja'', 2), (''de'', 3), (''fr'', 3 :: int)] = Some ''de''"
    by (simp add: tied_memory_def)
  have "fst (transcribe_and_translate example_fs scripted_model ''chunk.wav'' ''auto'' ?cold) =
          Inr (ascii ''hallo'', ascii ''hallo'', ''en'')"
    by (simp add: pipeline_defs example_defs)
  moreover from low_confidence_resolves_from_memory [OF v2 c2] n2 l2
  have "\<exists>original translated.
          fst (transcribe_and_translate example_fs scripted_model ''chunk.wav'' ''auto'' ?cold) =
            Inr (original, translated, ''en'')"
    by simp
  ultimately
  have r2: "fst (transcribe_and_translate example_fs scripted_model ''chunk.wav'' ''auto'' ?cold) =
              Inr (ascii ''hallo'', ascii ''hallo'', ''en'')"
    by simp
  from v1 c1 s1 r1 v2 c2 r2 show ?thesis by blast
qed

text \<open>
  C10. On a usable chunk with \<open>"auto"\<close> requested, let \<open>detect_language\<close> return a language
  other than \<open>"en"\<close> with a confidence above 0.3. After the invocation the frequency table
  is the one before with the count of that language incremented by one, whatever the
  later calls of the model do: a failure of the transcription or of the translation does
  not take the increment back.
\<close>

theorem increment_survives_failure:
  assumes "is_valid_audio_file fs self audio_path"
    and "fst (detect_language fs wm audio_path self) = (lang, conf)"
    and "conf > 0.3"
    and "lang \<noteq> ''en''"
  shows "detected_lang_cache (snd (transcribe_and_translate fs wm audio_path ''auto'' self)) =
           dict_set (detected_lang_cache self) lang
             (dict_get (detected_lang_cache self) lang 0 + 1) \<and>
         dict_get (detected_lang_cache
             (snd (transcribe_and_translate fs wm audio_path ''auto'' self))) lang 0 =
           dict_get (detected_lang_cache self) lang 0 + 1"
proof -
  obtain self1 where d: "detect_language fs wm audio_path self = ((lang, conf), self1)"
    using assms(2) by (metis prod.collapse)
  obtain rl self2 where r: "resolve_language fs wm audio_path ''auto'' self = (rl, self2)"
    by (metis prod.exhaust)
  have "detected_lang_cache self2 =
          dict_set (detected_lang_cache self) lang (dict_get (detected_lang_cache self) lang 0 + 1)"
    using r assms(3,4) unfolding resolve_auto [OF d] by auto
  with memory_after_resolve [OF assms(1) r] show ?thesis
    by (simp add: dict_get_dict_set)
qed

theorem increment_survives_failure_witness:
  "is_valid_audio_file example_fs (tied_memory [reply [] ''ja'' 0.92, failure]) ''chunk.wav'' \<and>
   fst (detect_language example_fs scripted_model ''chunk.wav''
          (tied_memory [reply [] ''ja'' 0.92, failure])) = (''ja'', 0.92) \<and>
   (0.92 :: real) > 0.3 \<and> ''ja'' \<noteq> ''en'' \<and>
   fst (transcribe_and_translate_try example_fs scripted_model ''chunk.wav'' ''auto''
          (tied_memory [reply [] ''ja'' 0.92, failure])) = Inl (OtherException ''decode failed'') \<and>
   detected_lang_cache
     (snd (transcribe_and_translate example_fs scripted_model ''chunk.wav'' ''auto''
             (tied_memory [reply [] ''ja'' 0.92, failure]))) =
     [(''ja'', 3), (''de'', 3), (''fr'', 3)]"
proof -
  let ?self = "tied_memory [reply [] ''ja'' 0.92, failure]"
  have v: "is_valid_audio_file example_fs ?self ''chunk.wav''"
    by (simp add: is_valid_audio_file_def example_defs)
  have d: "fst (detect_language example_fs scripted_model ''chunk.wav'' ?self) = (''ja'', 0.92)"
    by (simp add: pipeline_defs example_defs)
  have c: "(0.92 :: real) > 0.3" and n: "''ja'' \<noteq> ''en''"
    by simp_all
  have f: "fst (transcribe_and_translate_try example_fs scripted_model ''chunk.wav'' ''auto''
                  ?self) = Inl (OtherException ''decode failed'')"
    by (simp add: pipeline_defs example_defs)
  from increment_survives_failure [OF v d c n]
  have "detected_lang_cache
          (snd (transcribe_and_translate example_fs scripted_model ''chunk.wav'' ''auto'' ?self)) =
          [(''ja'', 3), (''de'', 3), (''fr'', 3)]"
    by (simp add: tied_memory_def dict_get_def)
  with v d c n f show ?thesis by blast
qed

text \<open>One invocation leaves the cache as it is or increments the count of one language.\<close>

lemma invocation_cache:
  "detected_lang_cache (snd (transcribe_and_translate fs wm audio_path source_lang self)) =
     detected_lang_cache self \<or>
   (\<exists>lang. detected_lang_cache (snd (transcribe_and_translate fs wm audio_path source_lang self)) =
      dict_set (detected_lang_cache self) lang (dict_get (detected_lang_cache self) lang 0 + 1))"
proof (cases "is_valid_audio_file fs self audio_path \<and> source_lang = ''auto''")
  case False
  have "detected_lang_cache (snd (transcribe_and_translate fs wm audio_path source_lang self)) =
          detected_lang_cache self"
  proof (cases "is_valid_audio_file fs self audio_path")
    case True
    with False have "source_lang \<noteq> ''auto''" by simp
    from memory_after_resolve [OF True resolve_explicit [OF this]] show ?thesis by simp
  next
    case False
    then show ?thesis by (simp add: transcribe_and_translate_def)
  qed
  then show ?thesis by simp
next
  case True
  obtain lang conf self0 where d: "detect_language fs wm audio_path self = ((lang, conf), self0)"
    by (metis prod.exhaust)
  obtain rl self1 where r: "resolve_language fs wm audio_path ''auto'' self = (rl, self1)"
    by (metis prod.exhaust)
  have "detected_lang_cache self1 = detected_lang_cache self \<or>
        detected_lang_cache self1 =
          dict_set (detected_lang_cache self) lang (dict_get (detected_lang_cache self) lang 0 + 1)"
    using r detect_language_effect [OF d] unfolding resolve_auto [OF d]
    by (auto split: if_splits)
  with memory_after_resolve [of fs self audio_path wm "''auto''" rl self1] True r
  show ?thesis by auto
qed

lemma invocation_count_mono:
  assumes "map_of (detected_lang_cache self) k = Some c"
  shows "\<exists>c'. map_of (detected_lang_cache
                 (snd (transcribe_and_translate fs wm audio_path source_lang self))) k = Some c' \<and>
              c \<le> c'"
  using invocation_cache [of fs wm audio_path source_lang self] assms
  by (auto simp: map_of_dict_set dict_get_def)

text \<open>
  C8. Across any sequence of invocations, on any chunks and with any requested languages,
  a language that has a count in the frequency table keeps an entry, and its count does
  not decrease.
\<close>

theorem counts_never_decrease:
  assumes "map_of (detected_lang_cache self) k = Some c"
  shows "\<exists>c'. map_of (detected_lang_cache (run_chunks fs wm chunks self)) k = Some c' \<and> c \<le> c'"
  using assms
proof (induction chunks arbitrary: self c)
  case Nil
  then show ?case by simp
next
  case (Cons chunk chunks)
  obtain audio_path source_lang where chunk: "chunk = (audio_path, source_lang)"
    by (cases chunk)
  obtain c1 where
    c1: "map_of (detected_lang_cache
           (snd (transcribe_and_translate fs wm audio_path source_lang self))) k = Some c1"
    and le: "c \<le> c1"
    using invocation_count_mono [OF Cons.prems] by blast
  from Cons.IH [OF c1] obtain c' where
    "map_of (detected_lang_cache (run_chunks fs wm (chunk # chunks) self)) k = Some c'"
    "c1 \<le> c'"
    unfolding chunk by auto
  with le show ?case by auto
qed

theorem counts_never_decrease_witness:
  "map_of (detected_lang_cache (tied_memory three_chunks_script)) ''ja'' = Some 2 \<and>
   map_of (detected_lang_cache
     (run_chunks example_fs scripted_model
        [(''chunk.wav'', ''auto''), (''short.wav'', ''auto''), (''chunk.wav'', ''auto'')]
        (tied_memory three_chunks_script))) ''ja'' = Some 4 \<and>
   (2 :: int) \<le> 4"
proof -
  let ?chunks = "[(''chunk.wav'', ''auto''), (''short.wav'', ''auto''), (''chunk.wav'', ''auto'')]"
  have before: "map_of (detected_lang_cache (tied_memory three_chunks_script)) ''ja'' = Some 2"
    by (simp add: tied_memory_def)
  have after: "map_of (detected_lang_cache
                 (run_chunks example_fs scripted_model ?chunks (tied_memory three_chunks_script)))
                 ''ja'' = Some 4"
    by (simp add: pipeline_defs example_defs)
  from counts_never_decrease [OF before, of example_fs scripted_model ?chunks]
  obtain c' where
    "map_of (detected_lang_cache
       (run_chunks example_fs scripted_model ?chunks (tied_memory three_chunks_script)))
       ''ja'' = Some c'"
    and "2 \<le> c'"
    by blast
  with after have "(2 :: int) \<le> 4" by simp
  with before after show ?thesis by blast
qed

subsection \<open>Translation\<close>

lemma early_exit:
  assumes "is_valid_audio_file fs self audio_path"
    and "resolve_language fs wm audio_path source_lang self = (Inr lang, self1)"
    and "transcribe_text wm (transcription_request (no_vad self1) audio_path lang) self1 =
           (Inr original_text, self2)"
    and "original_text = [] \<or> lang = ''en''"
  shows "transcribe_and_translate fs wm audio_path source_lang self =
           (Inr (original_text, original_text, lang), self2) \<and>
         translate_calls self2 = translate_calls self"
proof -
  have "transcribe_and_translate fs wm audio_path source_lang self =
          (Inr (original_text, original_text, lang), self2)"
    using assms by (simp add: transcribe_and_translate_def transcribe_and_translate_try_def)
  moreover have "translate_calls self2 = translate_calls self"
    using resolve_translate_calls [OF assms(2)] transcription_adds_no_translate_call [OF assms(3)]
    by simp
  ultimately show ?thesis by simp
qed

lemma english_result_untranslated:
  assumes "fst (transcribe_and_translate fs wm audio_path source_lang self) =
             Inr (original, translated, ''en'')"
  shows "translated = original \<and>
         translate_calls (snd (transcribe_and_translate fs wm audio_path source_lang self)) =
           translate_calls self"
proof (cases "is_valid_audio_file fs self audio_path")
  case False
  with assms show ?thesis by (simp add: transcribe_and_translate_def)
next
  case True
  obtain rl self1 where r: "resolve_language fs wm audio_path source_lang self = (rl, self1)"
    by (metis prod.exhaust)
  show ?thesis
  proof (cases rl)
    case (Inl e)
    with True r assms have "source_lang = ''en''"
      by (simp add: transcribe_and_translate_def transcribe_and_translate_try_def)
    with r Inl show ?thesis by (simp add: resolve_explicit)
  next
    case (Inr lang)
    obtain t self2 where
      t: "transcribe_text wm (transcription_request (no_vad self1) audio_path lang) self1 =
            (t, self2)"
      by (metis prod.exhaust)
    from result_language [OF True r [unfolded Inr]] assms have lang: "lang = ''en''" by auto
    show ?thesis
    proof (cases t)
      case (Inl e)
      with True r Inr t assms lang show ?thesis
        using resolve_translate_calls [OF r] transcription_adds_no_translate_call [OF t]
        by (simp add: transcribe_and_translate_def transcribe_and_translate_try_def)
    next
      case (Inr original_text)
      from early_exit [OF True r [unfolded \<open>rl = Inr lang\<close>] t [unfolded Inr]] lang assms
      show ?thesis by auto
    qed
  qed
qed

text \<open>
  C6. If the transcription of a usable chunk returns and its text, the trimmed
  concatenation of the segments, is empty or the resolved language is \<open>"en"\<close>, the result
  carries that text as the original and as the translated text, and the invocation makes
  no translate call. Moreover, whenever the language of a result is \<open>"en"\<close>, on any path,
  its translated text equals its original text and no translate call was made.
\<close>

theorem early_exit_skips_translation:
  "(\<forall>lang self1 original_text self2.
      is_valid_audio_file fs self audio_path \<and>
      resolve_language fs wm audio_path source_lang self = (Inr lang, self1) \<and>
      transcribe_text wm (transcription_request (no_vad self1) audio_path lang) self1 =
        (Inr original_text, self2) \<and>
      (original_text = [] \<or> lang = ''en'') \<longrightarrow>
      transcribe_and_translate fs wm audio_path source_lang self =
        (Inr (original_text, original_text, lang), self2) \<and>
      translate_calls self2 = translate_calls self) \<and>
   (\<forall>original translated.
      fst (transcribe_and_translate fs wm audio_path source_lang self) =
        Inr (original, translated, ''en'') \<longrightarrow>
      translated = original \<and>
      translate_calls (snd (transcribe_and_translate fs wm audio_path source_lang self)) =
        translate_calls self)"
  using early_exit [of fs self audio_path wm source_lang]
    english_result_untranslated [of fs wm audio_path source_lang self]
  by blast

theorem early_exit_skips_translation_witness:
  "is_valid_audio_file example_fs (init False [reply [ascii '' '', []] ''ja'' 1]) ''chunk.wav'' \<and>
   resolve_language example_fs scripted_model ''chunk.wav'' ''ja''
       (init False [reply [ascii '' '', []] ''ja'' 1]) =
     (Inr ''ja'', init False [reply [ascii '' '', []] ''ja'' 1]) \<and>
   fst (transcribe_text scripted_model (transcription_request False ''chunk.wav'' ''ja'')
          (init False [reply [ascii '' '', []] ''ja'' 1])) = Inr [] \<and>
   fst (transcribe_and_translate example_fs scripted_model ''chunk.wav'' ''ja''
          (init False [reply [ascii '' '', []] ''ja'' 1])) = Inr ([], [], ''ja'') \<and>
   translate_calls (snd (transcribe_and_translate example_fs scripted_model ''chunk.wav'' ''ja''
          (init False [reply [ascii '' '', []] ''ja'' 1]))) = [] \<and>
   fst (transcribe_and_translate example_fs scripted_model ''chunk.wav'' ''auto''
          (init False [reply [] ''en'' 0.9, reply [ascii '' good'', ascii '' morning ''] ''en'' 0.9])) =
     Inr (ascii ''good morning'', ascii ''good morning'', ''en'') \<and>
   translate_calls (snd (transcribe_and_translate example_fs scripted_model ''chunk.wav'' ''auto''
          (init False [reply [] ''en'' 0.9, reply [ascii '' good'', ascii '' morning ''] ''en'' 0.9]))) = []"
proof -
  let ?silent = "init False [reply [ascii '' '', []] ''ja'' 1]"
  let ?english = "init False [reply [] ''en'' 0.9, reply [ascii '' good'', ascii '' morning ''] ''en'' 0.9]"
  let ?after =
    "snd (transcribe_text scripted_model (transcription_request False ''chunk.wav'' ''ja'') ?silent)"
  have v: "is_valid_audio_file example_fs ?silent ''chunk.wav''"
    by (simp add: is_valid_audio_file_def example_defs)
  have r: "resolve_language example_fs scripted_model ''chunk.wav'' ''ja'' ?silent =
             (Inr ''ja'', ?silent)"
    by (simp add: resolve_language_def)
  have t: "transcribe_text scripted_model
             (transcription_request (no_vad ?silent) ''chunk.wav'' ''ja'') ?silent =
             (Inr [], ?after)"
    by (simp add: pipeline_defs example_defs)
  have t': "fst (transcribe_text scripted_model (transcription_request False ''chunk.wav'' ''ja'')
                   ?silent) = Inr []"
    by (simp add: pipeline_defs example_defs)
  have c0: "translate_calls ?silent = []"
    by (simp add: translate_calls_def init_def)
  have e: "fst (transcribe_and_translate example_fs scripted_model ''chunk.wav'' ''auto'' ?english) =
             Inr (ascii ''good morning'', ascii ''good morning'', ''en'')"
    by (simp add: pipeline_defs example_defs)
  have c1: "translate_calls ?english = []"
    by (simp add: translate_calls_def init_def)
  from early_exit_skips_translation [of example_fs ?silent "''chunk.wav''" scripted_model "''ja''"]
    v r t c0
  have s: "fst (transcribe_and_translate example_fs scripted_model ''chunk.wav'' ''ja'' ?silent) =
             Inr ([], [], ''ja'') \<and>
           translate_calls
             (snd (transcribe_and_translate example_fs scripted_model ''chunk.wav'' ''ja''
                     ?silent)) = []"
    by (metis fst_conv snd_conv)
  from early_exit_skips_translation [of example_fs ?english "''chunk.wav''" scripted_model
      "''auto''"] e c1
  have "translate_calls
          (snd (transcribe_and_translate example_fs scripted_model ''chunk.wav'' ''auto''
                  ?english)) = []"
    by metis
  with v r t' s e show ?thesis by blast
qed

text \<open>
  C2, as stated, fails: when the translate call raises, the handler returns the empty
  result and the transcribed text is lost. Here Japanese is requested, the transcription
  returns \<open>"konnichiwa"\<close> and the translate call raises.
\<close>

theorem translate_failure_loses_original_text:
  "is_valid_audio_file example_fs (init False [reply [12288 # konnichiwa] ''ja'' 1, failure])
     ''chunk.wav'' \<and>
   fst (transcribe_text scripted_model (transcription_request False ''chunk.wav'' ''ja'')
          (init False [reply [12288 # konnichiwa] ''ja'' 1, failure])) = Inr konnichiwa \<and>
   fst (transcribe_text scripted_model (translation_request False ''chunk.wav'' ''ja'')
          (snd (transcribe_text scripted_model (transcription_request False ''chunk.wav'' ''ja'')
                  (init False [reply [12288 # konnichiwa] ''ja'' 1, failure])))) =
     Inl (OtherException ''decode failed'') \<and>
   fst (transcribe_and_translate example_fs scripted_model ''chunk.wav'' ''ja''
          (init False [reply [12288 # konnichiwa] ''ja'' 1, failure])) = Inr ([], [], ''ja'') \<and>
   konnichiwa \<noteq> []"
  by (simp add: pipeline_defs example_defs)

text \<open>
  C2, amended. Let the transcription of a usable chunk return a text that is not empty,
  in a resolved language other than \<open>"en"\<close>. If the translate call raises (when called or
  while its segments are read), the invocation still returns a result: the one with empty
  original text, empty translated text and the resolved language. If the translate call
  returns, the result carries the original text, and as translated text the original
  text when the text of the translation is empty and the text of the translation
  otherwise: the fallback to the original text happens only for a translation that
  returned empty.
\<close>

theorem translate_failure_gives_empty_result:
  assumes "is_valid_audio_file fs self audio_path"
    and "resolve_language fs wm audio_path source_lang self = (Inr lang, self1)"
    and "transcribe_text wm (transcription_request (no_vad self1) audio_path lang) self1 =
           (Inr original_text, self2)"
    and "original_text \<noteq> []"
    and "lang \<noteq> ''en''"
  shows "(\<forall>e self3.
            transcribe_text wm (translation_request (no_vad self2) audio_path lang) self2 =
              (Inl e, self3) \<longrightarrow>
            transcribe_and_translate fs wm audio_path source_lang self =
              (Inr ([], [], lang), self3)) \<and>
         (\<forall>translated_text self3.
            transcribe_text wm (translation_request (no_vad self2) audio_path lang) self2 =
              (Inr translated_text, self3) \<longrightarrow>
            transcribe_and_translate fs wm audio_path source_lang self =
              (Inr (original_text,
                    if translated_text = [] then original_text else translated_text,
                    lang), self3))"
  using assms
  by (simp add: transcribe_and_translate_def transcribe_and_translate_try_def Let_def)

theorem translate_failure_gives_empty_result_witness:
  "fst (transcribe_and_translate example_fs scripted_model ''chunk.wav'' ''ja''
          (init False [reply [12288 # konnichiwa] ''ja'' 1, failure])) = Inr ([], [], ''ja'') \<and>
   fst (transcribe_and_translate example_fs scripted_model ''chunk.wav'' ''ja''
          (init False [reply [12288 # konnichiwa] ''ja'' 1, reply [ascii '' ''] ''ja'' 1])) =
     Inr (konnichiwa, konnichiwa, ''ja'') \<and>
   fst (transcribe_and_translate example_fs scripted_model ''chunk.wav'' ''ja''
          (init False [reply [12288 # konnichiwa] ''ja'' 1, reply [ascii '' Hello''] ''ja'' 1])) =
     Inr (konnichiwa, ascii ''Hello'', ''ja'') \<and>
   konnichiwa \<noteq> ascii ''Hello''"
proof -
  let ?failing = "init False [reply [12288 # konnichiwa] ''ja'' 1, failure]"
  let ?blank = "init False [reply [12288 # konnichiwa] ''ja'' 1, reply [ascii '' ''] ''ja'' 1]"
  let ?good =
    "init False [reply [12288 # konnichiwa] ''ja'' 1, reply [ascii '' Hello''] ''ja'' 1]"
  let ?treq = "transcription_request False ''chunk.wav'' ''ja''"
  let ?xreq = "translation_request False ''chunk.wav'' ''ja''"
  have v1: "is_valid_audio_file example_fs ?failing ''chunk.wav''"
    and v2: "is_valid_audio_file example_fs ?blank ''chunk.wav''"
    and v3: "is_valid_audio_file example_fs ?good ''chunk.wav''"
    by (simp_all add: is_valid_audio_file_def example_defs)
  have r1: "resolve_language example_fs scripted_model ''chunk.wav'' ''ja'' ?failing =
              (Inr ''ja'', ?failing)"
    and r2: "resolve_language example_fs scripted_model ''chunk.wav'' ''ja'' ?blank =
              (Inr ''ja'', ?blank)"
    and r3: "resolve_language example_fs scripted_model ''chunk.wav'' ''ja'' ?good =
              (Inr ''ja'', ?good)"
    by (simp_all add: resolve_language_def)
  have t1: "transcribe_text scripted_model
              (transcription_request (no_vad ?failing) ''chunk.wav'' ''ja'') ?failing =
              (Inr konnichiwa, snd (transcribe_text scripted_model ?treq ?failing))"
    and t2: "transcribe_text scripted_model
              (transcription_request (no_vad ?blank) ''chunk.wav'' ''ja'') ?blank =
              (Inr konnichiwa, snd (transcribe_text scripted_model ?treq ?blank))"
    and t3: "transcribe_text scripted_model
              (transcription_request (no_vad ?good) ''chunk.wav'' ''ja'') ?good =
              (Inr konnichiwa, snd (transcribe_text scripted_model ?treq ?good))"
    by (simp_all add: pipeline_defs example_defs)
  have n: "konnichiwa \<noteq> []" and l: "''ja'' \<noteq> ''en''"
    by (simp_all add: konnichiwa_def)
  have x1: "transcribe_text scripted_model
              (translation_request (no_vad (snd (transcribe_text scripted_model ?treq ?failing)))
                 ''chunk.wav'' ''ja'')
              (snd (transcribe_text scripted_model ?treq ?failing)) =
              (Inl (OtherException ''decode failed''),
               snd (transcribe_text scripted_model ?xreq
                      (snd (transcribe_text scripted_model ?treq ?failing))))"
    by (simp add: pipeline_defs example_defs)
  have x2: "transcribe_text scripted_model
              (translation_request (no_vad (snd (transcribe_text scripted_model ?treq ?blank)))
                 ''chunk.wav'' ''ja'')
              (snd (transcribe_text scripted_model ?treq ?blank)) =
              (Inr [],
               snd (transcribe_text scripted_model ?xreq
                      (snd (transcribe_text scripted_model ?treq ?blank))))"
    by (simp add: pipeline_defs example_defs)
  have x3: "transcribe_text scripted_model
              (translation_request (no_vad (snd (transcribe_text scripted_model ?treq ?good)))
                 ''chunk.wav'' ''ja'')
              (snd (transcribe_text scripted_model ?treq ?good)) =
              (Inr (ascii ''Hello''),
               snd (transcribe_text scripted_model ?xreq
                      (snd (transcribe_text scripted_model ?treq ?good))))"
    by (simp add: pipeline_defs example_defs)
  have h: "ascii ''Hello'' \<noteq> []" and k: "konnichiwa \<noteq> ascii ''Hello''"
    by (simp_all add: ascii_def konnichiwa_def)
  from translate_failure_gives_empty_result [OF v1 r1 t1 n l] x1
  have a: "fst (transcribe_and_translate example_fs scripted_model ''chunk.wav'' ''ja'' ?failing) =
             Inr ([], [], ''ja'')"
    by (metis fst_conv)
  from translate_failure_gives_empty_result [OF v2 r2 t2 n l] x2
  have "transcribe_and_translate example_fs scripted_model ''chunk.wav'' ''ja'' ?blank =
          (Inr (konnichiwa, if ([] :: py_text) = [] then konnichiwa else [], ''ja''),
           snd (transcribe_text scripted_model ?xreq
                  (snd (transcribe_text scripted_model ?treq ?blank))))"
    by blast
  then have b: "fst (transcribe_and_translate example_fs scripted_model ''chunk.wav'' ''ja''
                       ?blank) = Inr (konnichiwa, konnichiwa, ''ja'')"
    by simp
  from translate_failure_gives_empty_result [OF v3 r3 t3 n l] x3
  have "transcribe_and_translate example_fs scripted_model ''chunk.wav'' ''ja'' ?good =
          (Inr (konnichiwa,
                if ascii ''Hello'' = [] then konnichiwa else ascii ''Hello'', ''ja''),
           snd (transcribe_text scripted_model ?xreq
                  (snd (transcribe_text scripted_model ?treq ?good))))"
    by blast
  with h have c: "fst (transcribe_and_translate example_fs scripted_model ''chunk.wav'' ''ja''
                         ?good) = Inr (konnichiwa, ascii ''Hello'', ''ja'')"
    by simp
  from a b c k show ?thesis by blast
qed

subsection \<open>Failures of the model\<close>

text \<open>
  C9. Whatever the chunk, the requested language and the state are, and whichever calls
  of the model raise (at detection, transcription or translation, when called or while
  the segments are read), the invocation returns a result to its caller and never an
  exception. When the body of the \<open>try\<close> raises on a usable chunk, the result has empty
  original and translated text and the language the local variable \<open>source_lang\<close> held
  at that point.
\<close>

theorem never_raises:
  "(\<exists>original translated lang.
      fst (transcribe_and_translate fs wm audio_path source_lang self) =
        Inr (original, translated, lang)) \<and>
   (\<forall>e lang self1.
      is_valid_audio_file fs self audio_path \<and>
      transcribe_and_translate_try fs wm audio_path source_lang self = (Inl e, lang, self1) \<longrightarrow>
      transcribe_and_translate fs wm audio_path source_lang self =
        (Inr ([], [], lang), self1))"
  by (auto simp: transcribe_and_translate_def split: prod.splits sum.splits)

theorem never_raises_witness:
  "is_valid_audio_file example_fs (init False [failure, failure]) ''chunk.wav'' \<and>
   fst (detect_language example_fs scripted_model ''chunk.wav'' (init False [failure, failure])) =
     (''en'', 0) \<and>
   fst (transcribe_and_translate_try example_fs scripted_model ''chunk.wav'' ''auto''
          (init False [failure, failure])) = Inl (OtherException ''decode failed'') \<and>
   fst (transcribe_and_translate example_fs scripted_model ''chunk.wav'' ''auto''
          (init False [failure, failure])) = Inr ([], [], ''en'')"
proof -
  let ?self = "init False [failure, failure]"
  let ?body = "transcribe_and_translate_try example_fs scripted_model ''chunk.wav'' ''auto'' ?self"
  have v: "is_valid_audio_file example_fs ?self ''chunk.wav''"
    by (simp add: is_valid_audio_file_def example_defs)
  have d: "fst (detect_language example_fs scripted_model ''chunk.wav'' ?self) = (''en'', 0)"
    by (simp add: pipeline_defs example_defs)
  have f: "fst ?body = Inl (OtherException ''decode failed'')"
    by (simp add: pipeline_defs example_defs)
  have l: "fst (snd ?body) = ''en''"
    by (simp add: pipeline_defs example_defs)
  from f l have t: "?body = (Inl (OtherException ''decode failed''), ''en'', snd (snd ?body))"
    by (metis prod.collapse)
  from never_raises [of example_fs scripted_model "''chunk.wav''" "''auto''" ?self] v t
  have "transcribe_and_translate example_fs scripted_model ''chunk.wav'' ''auto'' ?self =
          (Inr ([], [], ''en''), snd (snd ?body))"
    by blast
  then have "fst (transcribe_and_translate example_fs scripted_model ''chunk.wav'' ''auto'' ?self) =
               Inr ([], [], ''en'')"
    by simp
  with v d f show ?thesis by blast
qed

subsection \<open>The cache as a dictionary\<close>

text \<open>
  The keys of the cache stay distinct, as those of a \<open>dict\<close> are: the association list
  can be read as a dictionary after any invocation.
\<close>

lemma invocation_keeps_keys_distinct:
  assumes "distinct (map fst (detected_lang_cache self))"
  shows "distinct (map fst (detected_lang_cache
           (snd (transcribe_and_translate fs wm audio_path source_lang self))))"
  using invocation_cache [of fs wm audio_path source_lang self] assms
  by (auto simp: distinct_dict_set)

lemma run_keeps_keys_distinct:
  "distinct (map fst (detected_lang_cache self)) \<Longrightarrow>
     distinct (map fst (detected_lang_cache (run_chunks fs wm chunks self)))"
proof (induction chunks arbitrary: self)
  case Nil
  then show ?case by simp
next
  case (Cons chunk chunks)
  obtain audio_path source_lang where chunk: "chunk = (audio_path, source_lang)"
    by (cases chunk)
  from Cons.IH [OF invocation_keeps_keys_distinct [OF Cons.prems]] show ?case
    unfolding chunk by simp
qed

subsection \<open>The scenarios of the specification\<close>

text \<open>
  Scenario A: \<open>"auto"\<close> is requested, \<open>"ja"\<close> is detected with confidence 0.92, the
  transcription and the translation return. The model is called three times, the last
  two times with the hint \<open>"ja"\<close>, and the count of \<open>"ja"\<close> becomes 1.
\<close>

lemma scenario_a:
  "fst (transcribe_and_translate example_fs scripted_model ''chunk.wav'' ''auto''
          (init False japanese_then_english)) = Inr (konnichiwa, ascii ''Hello'', ''ja'') \<and>
   detected_lang_cache heard_japanese = [(''ja'', 1)] \<and>
   map task (calls heard_japanese) = [Transcribe, Transcribe, Translate] \<and>
   map language (calls heard_japanese) = [None, Some ''ja'', Some ''ja'']"
  by (simp add: pipeline_defs example_defs)

text \<open>
  Scenario B: \<open>"auto"\<close> is requested, the confidence is 0.1 and the memory is that of
  \<open>init\<close>. The language is \<open>"en"\<close>, the transcription is called with the hint \<open>"en"\<close> and
  no translate call is made.
\<close>

lemma scenario_b:
  "fst (transcribe_and_translate example_fs scripted_model ''chunk.wav'' ''auto''
          (init False weak_detection_script)) = Inr (ascii ''hallo'', ascii ''hallo'', ''en'') \<and>
   map task (calls (snd (transcribe_and_translate example_fs scripted_model ''chunk.wav''
          ''auto'' (init False weak_detection_script)))) = [Transcribe, Transcribe] \<and>
   map language (calls (snd (transcribe_and_translate example_fs scripted_model ''chunk.wav''
          ''auto'' (init False weak_detection_script)))) = [None, Some ''en'']"
  by (simp add: pipeline_defs example_defs)

text \<open>
  Scenario C: \<open>"ja"\<close> is requested and the transcription returns white space only. Both
  texts are empty, the one call made is the transcription, and the memory is that of
  \<open>init\<close>.
\<close>

lemma scenario_c:
  "fst (transcribe_and_translate example_fs scripted_model ''chunk.wav'' ''ja''
          (init False [reply [[12288], ascii '' ''] ''ja'' 1])) = Inr ([], [], ''ja'') \<and>
   map task (calls (snd (transcribe_and_translate example_fs scripted_model ''chunk.wav'' ''ja''
          (init False [reply [[12288], ascii '' ''] ''ja'' 1])))) = [Transcribe] \<and>
   detected_lang_cache (snd (transcribe_and_translate example_fs scripted_model ''chunk.wav''
          ''ja'' (init False [reply [[12288], ascii '' ''] ''ja'' 1]))) = [] \<and>
   last_detected_lang (snd (transcribe_and_translate example_fs scripted_model ''chunk.wav''
          ''ja'' (init False [reply [[12288], ascii '' ''] ''ja'' 1]))) = ''en''"
  by (simp add: pipeline_defs example_defs)

text \<open>Scenario E: the chunk has 500 bytes; the result is empty and the model is not called.\<close>

lemma scenario_e:
  "transcribe_and_translate example_fs scripted_model ''short.wav'' ''ja''
     (init False [reply [konnichiwa] ''ja'' 1]) =
     (Inr ([], [], ''ja''), init False [reply [konnichiwa] ''ja'' 1]) \<and>
   calls (init False [reply [konnichiwa] ''ja'' 1]) = []"
  by (simp add: pipeline_defs example_defs)

end
